theory Spec2Isabelle
  imports Complex_Main
begin

section \<open>The audio player slice: data\<close>

text \<open>
  Modelled from the spec: the declarations \<^verbatim>\<open>types/Reciter\<close> and \<^verbatim>\<open>types/AudioFile\<close>
  are imported by \<^verbatim>\<open>state.ts\<close> from modules that are not modelled here. The spec gives a
  reciter an identifier and display metadata, and an audio file an identifier, the
  identifier of the chapter that owns it and a playable resource locator. The slice reads
  \<^verbatim>\<open>reciter.id\<close> and \<^verbatim>\<open>audioFile.chapterId\<close> only. JavaScript numbers that carry
  identifiers are integers here; the timestamp of \<^verbatim>\<open>playFrom\<close> is a real number.
\<close>

record Reciter =
  reciter_id :: int
  reciter_name :: string

record AudioFile =
  file_id :: int
  chapterId :: int
  audioUrl :: string

datatype AudioFileStatus = Ready | Loading | NoFile

text \<open>
  \<^verbatim>\<open>AudioState\<close>. The field \<^verbatim>\<open>audioFile\<close> is declared with the type \<^verbatim>\<open>AudioFile\<close> and
  initialised with \<^verbatim>\<open>null\<close>: the type admits \<^verbatim>\<open>null\<close>, so it is an option here, and so is
  every other value of that TypeScript type (the payload of \<^verbatim>\<open>setAudioFile\<close>, the value
  the fetch resolves with).
\<close>

record AudioState =
  isPlaying :: bool
  reciter :: Reciter
  audioFile :: "AudioFile option"
  audioFileStatus :: AudioFileStatus
  isMobileMinimizedForScrolling :: bool
  enableAutoScrolling :: bool

text \<open>
  \<^verbatim>\<open>DEFAULT_RECITER\<close> is imported from \<^verbatim>\<open>./defaultData\<close> and its value is not fixed
  here: it is the parameter \<open>DEFAULT_RECITER\<close> of everything that reads it.
\<close>

definition initialState :: "Reciter \<Rightarrow> AudioState" where
  "initialState DEFAULT_RECITER =
     \<lparr> isPlaying = False,
       reciter = DEFAULT_RECITER,
       audioFile = None,
       audioFileStatus = NoFile,
       isMobileMinimizedForScrolling = False,
       enableAutoScrolling = True \<rparr>"

text \<open>The selectors, on the slice's own part of the root state.\<close>

definition selectReciter :: "AudioState \<Rightarrow> Reciter" where
  "selectReciter state = reciter state"

definition selectIsUsingDefaultReciter :: "Reciter \<Rightarrow> AudioState \<Rightarrow> bool" where
  "selectIsUsingDefaultReciter DEFAULT_RECITER state =
     (reciter_id (reciter state) = reciter_id DEFAULT_RECITER)"

definition selectAudioFile :: "AudioState \<Rightarrow> AudioFile option" where
  "selectAudioFile state = audioFile state"

definition selectAudioFileStatus :: "AudioState \<Rightarrow> AudioFileStatus" where
  "selectAudioFileStatus state = audioFileStatus state"

definition selectIsPlaying :: "AudioState \<Rightarrow> bool" where
  "selectIsPlaying state = isPlaying state"

definition selectIsMobileMinimizedForScrolling :: "AudioState \<Rightarrow> bool" where
  "selectIsMobileMinimizedForScrolling state = isMobileMinimizedForScrolling state"

definition selectEnableAutoScrolling :: "AudioState \<Rightarrow> bool" where
  "selectEnableAutoScrolling state = enableAutoScrolling state"

section \<open>The reducers\<close>

text \<open>
  Each reducer of \<^verbatim>\<open>createSlice\<close> returns a copy of the state with the named fields
  replaced (\<^verbatim>\<open>{...state, field: value}\<close>).
\<close>

definition setIsPlaying :: "AudioState \<Rightarrow> bool \<Rightarrow> AudioState" where
  "setIsPlaying state payload = state\<lparr>isPlaying := payload\<rparr>"

definition setIsMobileMinimizedForScrolling :: "AudioState \<Rightarrow> bool \<Rightarrow> AudioState" where
  "setIsMobileMinimizedForScrolling state payload =
     state\<lparr>isMobileMinimizedForScrolling := payload\<rparr>"

definition setReciter :: "AudioState \<Rightarrow> Reciter \<Rightarrow> AudioState" where
  "setReciter state payload = state\<lparr>reciter := payload\<rparr>"

definition setAudioFile :: "AudioState \<Rightarrow> AudioFile option \<Rightarrow> AudioState" where
  "setAudioFile state payload = state\<lparr>audioFile := payload\<rparr>"

definition setAudioStatus :: "AudioState \<Rightarrow> AudioFileStatus \<Rightarrow> AudioState" where
  "setAudioStatus state payload = state\<lparr>audioFileStatus := payload\<rparr>"

definition setEnableAutoScrolling :: "AudioState \<Rightarrow> bool \<Rightarrow> AudioState" where
  "setEnableAutoScrolling state payload = state\<lparr>enableAutoScrolling := payload\<rparr>"

definition resetAudioFile :: "Reciter \<Rightarrow> AudioState \<Rightarrow> AudioState" where
  "resetAudioFile DEFAULT_RECITER state =
     state\<lparr>audioFile := audioFile (initialState DEFAULT_RECITER),
           audioFileStatus := audioFileStatus (initialState DEFAULT_RECITER)\<rparr>"

text \<open>The case that \<^verbatim>\<open>extraReducers\<close> adds for the \<^verbatim>\<open>resetSettings\<close> action.\<close>

definition resetSettings :: "Reciter \<Rightarrow> AudioState \<Rightarrow> AudioState" where
  "resetSettings DEFAULT_RECITER state = state\<lparr>reciter := DEFAULT_RECITER\<rparr>"

text \<open>
  The actions the slice answers to, and the slice's reducer, which hands an action to
  the reducer of its type.
\<close>

datatype action =
    SetIsPlaying bool
  | SetIsMobileMinimizedForScrolling bool
  | SetReciter Reciter
  | SetAudioFile "AudioFile option"
  | SetAudioStatus AudioFileStatus
  | SetEnableAutoScrolling bool
  | ResetAudioFile
  | ResetSettings

fun reducer :: "Reciter \<Rightarrow> AudioState \<Rightarrow> action \<Rightarrow> AudioState" where
  "reducer DEFAULT_RECITER state (SetIsPlaying payload) = setIsPlaying state payload"
| "reducer DEFAULT_RECITER state (SetIsMobileMinimizedForScrolling payload) =
     setIsMobileMinimizedForScrolling state payload"
| "reducer DEFAULT_RECITER state (SetReciter payload) = setReciter state payload"
| "reducer DEFAULT_RECITER state (SetAudioFile payload) = setAudioFile state payload"
| "reducer DEFAULT_RECITER state (SetAudioStatus payload) = setAudioStatus state payload"
| "reducer DEFAULT_RECITER state (SetEnableAutoScrolling payload) =
     setEnableAutoScrolling state payload"
| "reducer DEFAULT_RECITER state ResetAudioFile = resetAudioFile DEFAULT_RECITER state"
| "reducer DEFAULT_RECITER state ResetSettings = resetSettings DEFAULT_RECITER state"

section \<open>The thunks\<close>

text \<open>
  A thunk reads the store, dispatches actions to it, calls the event triggers of the audio
  player (\<^verbatim>\<open>triggerPlayAudio\<close>, \<^verbatim>\<open>triggerSetCurrentTime\<close>, \<^verbatim>\<open>triggerPauseAudio\<close>) and awaits
  \<^verbatim>\<open>getChapterAudioFile\<close>. The world a thunk runs in is the store and the trace of what
  has been done to the outside so far, in order: each dispatched action, each trigger
  call, each call of \<^verbatim>\<open>getChapterAudioFile\<close> with its two arguments.
\<close>

datatype event =
    Dispatched action
  | TriggerPlayAudio
  | TriggerSetCurrentTime real
  | TriggerPauseAudio
  | GetChapterAudioFile int int

record World =
  store :: AudioState
  trace :: "event list"

text \<open>
  \<^verbatim>\<open>getChapterAudioFile\<close> is imported from \<^verbatim>\<open>src/api\<close> and calls the network: it is the
  parameter \<open>getChapterAudioFile\<close> of the thunks, which says for a reciter id and a chapter
  id whether the promise resolves, and with what, or rejects.
\<close>

datatype fetch_result = Resolves "AudioFile option" | Rejects

type_synonym api = "int \<Rightarrow> int \<Rightarrow> fetch_result"

text \<open>
  A payload creator returns, or throws: reading a property of \<^verbatim>\<open>null\<close> throws a
  \<^verbatim>\<open>TypeError\<close>, awaiting a rejected promise throws the rejection. \<^verbatim>\<open>createAsyncThunk\<close>
  catches what is thrown and ends the thunk as rejected; the slice has no case for a
  thunk's \<^verbatim>\<open>pending\<close>, \<^verbatim>\<open>fulfilled\<close> or \<^verbatim>\<open>rejected\<close> action, so none of them changes
  the state.
\<close>

datatype error = TypeError | FetchFailure

datatype outcome = Fulfilled | Rejected error

definition dispatch :: "Reciter \<Rightarrow> action \<Rightarrow> World \<Rightarrow> World" where
  "dispatch DEFAULT_RECITER a w =
     w\<lparr>store := reducer DEFAULT_RECITER (store w) a, trace := trace w @ [Dispatched a]\<rparr>"

definition emit :: "event \<Rightarrow> World \<Rightarrow> World" where
  "emit e w = w\<lparr>trace := trace w @ [e]\<rparr>"

definition loadAndPlayAudioFile ::
  "Reciter \<Rightarrow> api \<Rightarrow> int \<Rightarrow> World \<Rightarrow> outcome \<times> World" where
  "loadAndPlayAudioFile DEFAULT_RECITER getChapterAudioFile chapter w =
     (let currentAudioFile = selectAudioFile (store w) in
      if (case currentAudioFile of None \<Rightarrow> False | Some f \<Rightarrow> chapterId f = chapter)
      then (Fulfilled, emit TriggerPlayAudio w)
      else
        let w1 = dispatch DEFAULT_RECITER (SetAudioStatus Loading) w;
            currentReciter = selectReciter (store w1);
            w2 = emit (GetChapterAudioFile (reciter_id currentReciter) chapter) w1
        in case getChapterAudioFile (reciter_id currentReciter) chapter of
             Rejects \<Rightarrow> (Rejected FetchFailure, w2)
           | Resolves fetched \<Rightarrow>
               let w3 = dispatch DEFAULT_RECITER (SetAudioFile fetched) w2
               in (Fulfilled, emit TriggerPlayAudio w3))"

definition setReciterAndPauseAudio ::
  "Reciter \<Rightarrow> api \<Rightarrow> Reciter \<Rightarrow> World \<Rightarrow> outcome \<times> World" where
  "setReciterAndPauseAudio DEFAULT_RECITER getChapterAudioFile newReciter w =
     (let w1 = dispatch DEFAULT_RECITER (SetAudioStatus Loading) w;
          w2 = emit TriggerPauseAudio w1;
          w3 = dispatch DEFAULT_RECITER (SetReciter newReciter) w2;
          state = store w3
      in case selectAudioFile state of
           None \<Rightarrow> (Rejected TypeError, w3)
         | Some f \<Rightarrow>
             let w4 = emit (GetChapterAudioFile (reciter_id newReciter) (chapterId f)) w3
             in (case getChapterAudioFile (reciter_id newReciter) (chapterId f) of
                   Rejects \<Rightarrow> (Rejected FetchFailure, w4)
                 | Resolves fetched \<Rightarrow>
                     (Fulfilled, dispatch DEFAULT_RECITER (SetAudioFile fetched) w4)))"

text \<open>
  \<^verbatim>\<open>playFrom\<close> takes \<^verbatim>\<open>{ timestamp, chapterId, reciterId }\<close>. The fetch is made for the
  id of the reciter in the store, not for \<^verbatim>\<open>reciterId\<close>.
\<close>

definition playFrom ::
  "Reciter \<Rightarrow> api \<Rightarrow> real \<Rightarrow> int \<Rightarrow> int \<Rightarrow> World \<Rightarrow> outcome \<times> World" where
  "playFrom DEFAULT_RECITER getChapterAudioFile timestamp chapter reciterId w =
     (let state = store w;
          currentReciter = selectReciter state;
          current = selectAudioFile state;
          seekAndPlay = (\<lambda>w'.
            let timestampInSeconds = timestamp / 1000
            in (Fulfilled, emit TriggerPlayAudio (emit (TriggerSetCurrentTime timestampInSeconds) w')))
      in if (case current of None \<Rightarrow> True | Some f \<Rightarrow> chapterId f \<noteq> chapter)
            \<or> reciter_id currentReciter \<noteq> reciterId
         then
           let w1 = dispatch DEFAULT_RECITER (SetAudioStatus Loading) w;
               w2 = emit (GetChapterAudioFile (reciter_id currentReciter) chapter) w1
           in case getChapterAudioFile (reciter_id currentReciter) chapter of
                Rejects \<Rightarrow> (Rejected FetchFailure, w2)
              | Resolves fetched \<Rightarrow> seekAndPlay (dispatch DEFAULT_RECITER (SetAudioFile fetched) w2)
         else seekAndPlay w)"

text \<open>The three thunks as one type of calls, and running a call.\<close>

datatype thunk =
    LoadAndPlayAudioFile int
  | SetReciterAndPauseAudio Reciter
  | PlayFrom real int int

fun run :: "Reciter \<Rightarrow> api \<Rightarrow> thunk \<Rightarrow> World \<Rightarrow> outcome \<times> World" where
  "run DEFAULT_RECITER getChapterAudioFile (LoadAndPlayAudioFile chapter) w =
     loadAndPlayAudioFile DEFAULT_RECITER getChapterAudioFile chapter w"
| "run DEFAULT_RECITER getChapterAudioFile (SetReciterAndPauseAudio newReciter) w =
     setReciterAndPauseAudio DEFAULT_RECITER getChapterAudioFile newReciter w"
| "run DEFAULT_RECITER getChapterAudioFile (PlayFrom timestamp chapter reciterId) w =
     playFrom DEFAULT_RECITER getChapterAudioFile timestamp chapter reciterId w"

text \<open>
  Reading a trace: the actions it dispatched, in order, and the states the store goes
  through when these actions are applied one after the other to a state (the state
  before the first action, then the state after each action).
\<close>

fun dispatched :: "event list \<Rightarrow> action list" where
  "dispatched [] = []"
| "dispatched (Dispatched a # es) = a # dispatched es"
| "dispatched (e # es) = dispatched es"

fun visited :: "Reciter \<Rightarrow> AudioState \<Rightarrow> action list \<Rightarrow> AudioState list" where
  "visited DEFAULT_RECITER state [] = [state]"
| "visited DEFAULT_RECITER state (a # as) =
     state # visited DEFAULT_RECITER (reducer DEFAULT_RECITER state a) as"

text \<open>
  The states reachable from the initial state: by an action of the slice that \<open>allowed\<close>
  admits, and by a thunk, run alone from a reachable state against any behaviour of
  \<^verbatim>\<open>getChapterAudioFile\<close>: every state the store goes through during the run is reachable.
\<close>

inductive reachable :: "(action \<Rightarrow> bool) \<Rightarrow> Reciter \<Rightarrow> AudioState \<Rightarrow> bool"
  for allowed :: "action \<Rightarrow> bool" and DEFAULT_RECITER :: Reciter
where
  initial: "reachable allowed DEFAULT_RECITER (initialState DEFAULT_RECITER)"
| by_action: "reachable allowed DEFAULT_RECITER state \<Longrightarrow> allowed a
     \<Longrightarrow> reachable allowed DEFAULT_RECITER (reducer DEFAULT_RECITER state a)"
| by_thunk: "reachable allowed DEFAULT_RECITER state
     \<Longrightarrow> state' \<in> set (visited DEFAULT_RECITER state (dispatched (trace (snd
           (run DEFAULT_RECITER getChapterAudioFile t \<lparr>store = state, trace = []\<rparr>)))))
     \<Longrightarrow> reachable allowed DEFAULT_RECITER state'"

text \<open>Every action of the slice.\<close>

definition any_action :: "action \<Rightarrow> bool" where
  "any_action a = True"

text \<open>
  The actions other than the two direct setters that can part the status from the file:
  \<^verbatim>\<open>setAudioFile\<close> with a file, and \<^verbatim>\<open>setAudioStatus\<close> with \<^verbatim>\<open>NoFile\<close>.
\<close>

fun keeps_file_and_status :: "action \<Rightarrow> bool" where
  "keeps_file_and_status (SetAudioFile (Some f)) = False"
| "keeps_file_and_status (SetAudioStatus NoFile) = False"
| "keeps_file_and_status a = True"

text \<open>Two behaviours of \<^verbatim>\<open>getChapterAudioFile\<close>: every call resolves with \<open>v\<close>; every call rejects.\<close>

definition resolvingWith :: "AudioFile option \<Rightarrow> api" where
  "resolvingWith v reciterId chapter = Resolves v"

definition rejecting :: api where
  "rejecting reciterId chapter = Rejects"

text \<open>The events of a trace that are calls of a trigger of the audio player.\<close>

fun is_trigger :: "event \<Rightarrow> bool" where
  "is_trigger TriggerPlayAudio = True"
| "is_trigger (TriggerSetCurrentTime seconds) = True"
| "is_trigger TriggerPauseAudio = True"
| "is_trigger e = False"

text \<open>Values for the examples: a default reciter, two more reciters, two audio files.\<close>

abbreviation reciter7 :: Reciter where
  "reciter7 \<equiv> \<lparr>reciter_id = 7, reciter_name = ''default''\<rparr>"

abbreviation reciter1 :: Reciter where
  "reciter1 \<equiv> \<lparr>reciter_id = 1, reciter_name = ''one''\<rparr>"

abbreviation reciter2 :: Reciter where
  "reciter2 \<equiv> \<lparr>reciter_id = 2, reciter_name = ''two''\<rparr>"

abbreviation file2 :: AudioFile where
  "file2 \<equiv> \<lparr>file_id = 20, chapterId = 2, audioUrl = ''af-2''\<rparr>"

abbreviation file5 :: AudioFile where
  "file5 \<equiv> \<lparr>file_id = 50, chapterId = 5, audioUrl = ''af-5''\<rparr>"

abbreviation file5' :: AudioFile where
  "file5' \<equiv> \<lparr>file_id = 51, chapterId = 5, audioUrl = ''af-5-by-two''\<rparr>"

section \<open>The feedback widget\<close>

text \<open>
  \<^verbatim>\<open>FeedbackWidget\<close> renders one \<^verbatim>\<open>div\<close> whose class names depend on the state. The names
  of the style sheet are the values of a type of their own; \<^verbatim>\<open>classNames\<close> (the
  \<^verbatim>\<open>classnames\<close> package) keeps its first argument and, of the object it is given, the
  keys whose value is true, in the order they are written.
\<close>

datatype style = styles_container | styles_isMobileMinimizedForScrolling | styles_audioPlayerOpen

definition classNames :: "style \<Rightarrow> (style \<times> bool) list \<Rightarrow> style list" where
  "classNames c conditional = c # map fst (filter snd conditional)"

definition isHidden :: "AudioState \<Rightarrow> bool" where
  "isHidden state = (selectAudioFileStatus state = NoFile)"

definition FeedbackWidget :: "AudioState \<Rightarrow> style list" where
  "FeedbackWidget state =
     classNames styles_container
       [(styles_isMobileMinimizedForScrolling, selectIsMobileMinimizedForScrolling state),
        (styles_audioPlayerOpen, \<not> isHidden state)]"

section \<open>Reading the trace of a run\<close>

lemmas thunk_defs = loadAndPlayAudioFile_def setReciterAndPauseAudio_def playFrom_def
  dispatch_def emit_def selectAudioFile_def selectReciter_def
  setAudioStatus_def setAudioFile_def setReciter_def Let_def

lemmas reducer_defs = setIsPlaying_def setIsMobileMinimizedForScrolling_def setReciter_def
  setAudioFile_def setAudioStatus_def setEnableAutoScrolling_def resetAudioFile_def
  resetSettings_def initialState_def

lemma visited_last: "last (visited D s as) = foldl (reducer D) s as"
proof (induction as arbitrary: s)
  case Nil
  show ?case by simp
next
  case (Cons a as)
  have "visited D (reducer D s a) as \<noteq> []" by (cases as) simp_all
  with Cons show ?case by simp
qed

text \<open>
  The store at the end of a run is the last of the states that the dispatched actions of
  its trace go through: the trace misses no change of the store.
\<close>

lemma run_store_replay:
  "store (snd (run D api t \<lparr>store = s, trace = []\<rparr>))
     = last (visited D s (dispatched (trace (snd (run D api t \<lparr>store = s, trace = []\<rparr>)))))"
  unfolding visited_last
  by (cases t) (auto simp: thunk_defs split: option.splits fetch_result.splits)

section \<open>The reset operations\<close>

text \<open>
  C7. The reset-settings event sets the reciter to the default reciter and leaves the
  audio file, the status, the playing flag, the minimized flag and the auto-scrolling
  flag of the state as they were, whatever the state.
\<close>

theorem resetSettings_frame:
  "reducer DEFAULT_RECITER state ResetSettings = state\<lparr>reciter := DEFAULT_RECITER\<rparr>
   \<and> reciter (reducer DEFAULT_RECITER state ResetSettings) = DEFAULT_RECITER
   \<and> audioFile (reducer DEFAULT_RECITER state ResetSettings) = audioFile state
   \<and> audioFileStatus (reducer DEFAULT_RECITER state ResetSettings) = audioFileStatus state
   \<and> isPlaying (reducer DEFAULT_RECITER state ResetSettings) = isPlaying state
   \<and> isMobileMinimizedForScrolling (reducer DEFAULT_RECITER state ResetSettings)
       = isMobileMinimizedForScrolling state
   \<and> enableAutoScrolling (reducer DEFAULT_RECITER state ResetSettings)
       = enableAutoScrolling state"
  by (simp add: resetSettings_def)

text \<open>
  C8. Whatever the state, \<^verbatim>\<open>resetAudioFile\<close> leaves the audio file absent and the status
  \<^verbatim>\<open>NoFile\<close>, and touches no other field; applying it twice gives the state that applying
  it once gives; dispatching it adds the dispatched action to the trace and nothing else,
  so no trigger of the audio player is called.
\<close>

theorem resetAudioFile_idempotent:
  "audioFile (reducer DEFAULT_RECITER state ResetAudioFile) = None
   \<and> audioFileStatus (reducer DEFAULT_RECITER state ResetAudioFile) = NoFile
   \<and> reducer DEFAULT_RECITER state ResetAudioFile
       = state\<lparr>audioFile := None, audioFileStatus := NoFile\<rparr>
   \<and> reducer DEFAULT_RECITER (reducer DEFAULT_RECITER state ResetAudioFile) ResetAudioFile
       = reducer DEFAULT_RECITER state ResetAudioFile
   \<and> trace (dispatch DEFAULT_RECITER ResetAudioFile w) = trace w @ [Dispatched ResetAudioFile]
   \<and> store (dispatch DEFAULT_RECITER ResetAudioFile w)
       = (store w)\<lparr>audioFile := None, audioFileStatus := NoFile\<rparr>"
  by (simp add: resetAudioFile_def initialState_def dispatch_def)

section \<open>When the fetch resolves\<close>

text \<open>
  C1, as the code has it. Run any of the three thunks from any state. If the run called
  \<^verbatim>\<open>getChapterAudioFile\<close> and the call resolved with \<open>v\<close>, the thunk is fulfilled and the
  state at its end has \<open>v\<close> as its audio file and \<^verbatim>\<open>Loading\<close> as its status: the thunks
  dispatch \<^verbatim>\<open>setAudioFile\<close>, which replaces the audio file only, and never dispatch
  \<^verbatim>\<open>setAudioStatus(Ready)\<close>.
\<close>

theorem fetch_resolved_state:
  assumes "GetChapterAudioFile r c \<in> set (trace (snd (run D api t \<lparr>store = s, trace = []\<rparr>)))"
    and "api r c = Resolves v"
  shows "fst (run D api t \<lparr>store = s, trace = []\<rparr>) = Fulfilled
     \<and> audioFile (store (snd (run D api t \<lparr>store = s, trace = []\<rparr>))) = v
     \<and> audioFileStatus (store (snd (run D api t \<lparr>store = s, trace = []\<rparr>))) = Loading"
  using assms
  by (cases t) (auto simp: thunk_defs split: option.splits fetch_result.splits if_splits)

theorem fetch_resolved_state_witness:
  "GetChapterAudioFile 7 2 \<in> set (trace (snd (run reciter7 (resolvingWith (Some file2))
       (LoadAndPlayAudioFile 2) \<lparr>store = initialState reciter7, trace = []\<rparr>)))
   \<and> resolvingWith (Some file2) 7 2 = Resolves (Some file2)
   \<and> fst (run reciter7 (resolvingWith (Some file2))
       (LoadAndPlayAudioFile 2) \<lparr>store = initialState reciter7, trace = []\<rparr>) = Fulfilled
   \<and> audioFile (store (snd (run reciter7 (resolvingWith (Some file2))
       (LoadAndPlayAudioFile 2) \<lparr>store = initialState reciter7, trace = []\<rparr>))) = Some file2
   \<and> audioFileStatus (store (snd (run reciter7 (resolvingWith (Some file2))
       (LoadAndPlayAudioFile 2) \<lparr>store = initialState reciter7, trace = []\<rparr>))) = Loading"
proof -
  have called: "GetChapterAudioFile 7 2 \<in> set (trace (snd (run reciter7 (resolvingWith (Some file2))
       (LoadAndPlayAudioFile 2) \<lparr>store = initialState reciter7, trace = []\<rparr>)))"
    by (simp add: thunk_defs initialState_def resolvingWith_def)
  have resolved: "resolvingWith (Some file2) 7 2 = Resolves (Some file2)"
    by (simp add: resolvingWith_def)
  show ?thesis
    using called resolved fetch_resolved_state [OF called resolved] by simp
qed

text \<open>
  The claim as written fails: from the initial state, \<^verbatim>\<open>loadAndPlayAudioFile(2)\<close> with a
  fetch that resolves with a file of chapter 2 ends fulfilled with that file in the
  state, and the status is not \<^verbatim>\<open>Ready\<close>; so do \<^verbatim>\<open>setReciterAndPauseAudio\<close> and \<^verbatim>\<open>playFrom\<close>
  from a state that holds a file of chapter 5.
\<close>

theorem fetch_resolved_Ready_counterexample:
  "loadAndPlayAudioFile reciter7 (resolvingWith (Some file2)) 2
       \<lparr>store = initialState reciter7, trace = []\<rparr>
     = (Fulfilled,
        \<lparr>store = (initialState reciter7)\<lparr>audioFile := Some file2, audioFileStatus := Loading\<rparr>,
         trace = [Dispatched (SetAudioStatus Loading), GetChapterAudioFile 7 2,
                  Dispatched (SetAudioFile (Some file2)), TriggerPlayAudio]\<rparr>)
   \<and> audioFileStatus (store (snd (loadAndPlayAudioFile reciter7 (resolvingWith (Some file2)) 2
       \<lparr>store = initialState reciter7, trace = []\<rparr>))) \<noteq> Ready
   \<and> GetChapterAudioFile 2 5 \<in> set (trace (snd (setReciterAndPauseAudio reciter7
       (resolvingWith (Some file5')) reciter2
       \<lparr>store = (initialState reciter7)\<lparr>audioFile := Some file5, audioFileStatus := Ready\<rparr>,
        trace = []\<rparr>)))
   \<and> audioFileStatus (store (snd (setReciterAndPauseAudio reciter7
       (resolvingWith (Some file5')) reciter2
       \<lparr>store = (initialState reciter7)\<lparr>audioFile := Some file5, audioFileStatus := Ready\<rparr>,
        trace = []\<rparr>))) \<noteq> Ready
   \<and> GetChapterAudioFile 7 2 \<in> set (trace (snd (playFrom reciter7
       (resolvingWith (Some file2)) 3000 2 7
       \<lparr>store = (initialState reciter7)\<lparr>audioFile := Some file5, audioFileStatus := Ready\<rparr>,
        trace = []\<rparr>)))
   \<and> audioFileStatus (store (snd (playFrom reciter7
       (resolvingWith (Some file2)) 3000 2 7
       \<lparr>store = (initialState reciter7)\<lparr>audioFile := Some file5, audioFileStatus := Ready\<rparr>,
        trace = []\<rparr>))) \<noteq> Ready"
  by (simp add: thunk_defs initialState_def resolvingWith_def)

section \<open>When the fetch rejects\<close>

text \<open>
  C6. Run any of the three thunks from any state. If the run called
  \<^verbatim>\<open>getChapterAudioFile\<close> and the call rejected, the thunk ends rejected with the failure
  of the fetch, and the call is the last thing it did: nothing is dispatched or triggered
  after it. The status at the end is \<^verbatim>\<open>Loading\<close>, the audio file is the one from before
  the run, and the store holds every action dispatched before the fetch: the starting
  state with the status replaced, and for \<^verbatim>\<open>setReciterAndPauseAudio\<close> also with the new
  reciter.
\<close>

theorem fetch_rejected_state:
  assumes "GetChapterAudioFile r c \<in> set (trace (snd (run D api t \<lparr>store = s, trace = []\<rparr>)))"
    and "api r c = Rejects"
  shows "fst (run D api t \<lparr>store = s, trace = []\<rparr>) = Rejected FetchFailure
     \<and> audioFileStatus (store (snd (run D api t \<lparr>store = s, trace = []\<rparr>))) = Loading
     \<and> audioFile (store (snd (run D api t \<lparr>store = s, trace = []\<rparr>))) = audioFile s
     \<and> last (trace (snd (run D api t \<lparr>store = s, trace = []\<rparr>))) = GetChapterAudioFile r c
     \<and> store (snd (run D api t \<lparr>store = s, trace = []\<rparr>))
         = foldl (reducer D) s (dispatched (trace (snd (run D api t \<lparr>store = s, trace = []\<rparr>))))
     \<and> (\<forall>newReciter. t = SetReciterAndPauseAudio newReciter
           \<longrightarrow> store (snd (run D api t \<lparr>store = s, trace = []\<rparr>))
               = s\<lparr>reciter := newReciter, audioFileStatus := Loading\<rparr>)
     \<and> ((\<forall>newReciter. t \<noteq> SetReciterAndPauseAudio newReciter)
           \<longrightarrow> store (snd (run D api t \<lparr>store = s, trace = []\<rparr>))
               = s\<lparr>audioFileStatus := Loading\<rparr>)"
  using assms
  by (cases t) (auto simp: thunk_defs split: option.splits fetch_result.splits if_splits)

theorem fetch_rejected_state_witness:
  "GetChapterAudioFile 2 5 \<in> set (trace (snd (run reciter7 rejecting (SetReciterAndPauseAudio reciter2)
       \<lparr>store = (initialState reciter7)\<lparr>reciter := reciter1, audioFile := Some file5,
                                          audioFileStatus := Ready\<rparr>, trace = []\<rparr>)))
   \<and> rejecting 2 5 = Rejects
   \<and> run reciter7 rejecting (SetReciterAndPauseAudio reciter2)
       \<lparr>store = (initialState reciter7)\<lparr>reciter := reciter1, audioFile := Some file5,
                                          audioFileStatus := Ready\<rparr>, trace = []\<rparr>
     = (Rejected FetchFailure,
        \<lparr>store = (initialState reciter7)\<lparr>reciter := reciter2, audioFile := Some file5,
                                           audioFileStatus := Loading\<rparr>,
         trace = [Dispatched (SetAudioStatus Loading), TriggerPauseAudio,
                  Dispatched (SetReciter reciter2), GetChapterAudioFile 2 5]\<rparr>)"
proof -
  have called: "GetChapterAudioFile 2 5 \<in> set (trace (snd (run reciter7 rejecting
       (SetReciterAndPauseAudio reciter2)
       \<lparr>store = (initialState reciter7)\<lparr>reciter := reciter1, audioFile := Some file5,
                                          audioFileStatus := Ready\<rparr>, trace = []\<rparr>)))"
    by (simp add: thunk_defs initialState_def rejecting_def)
  have rejected: "rejecting 2 5 = Rejects"
    by (simp add: rejecting_def)
  show ?thesis
    using called rejected fetch_rejected_state [OF called rejected]
    by (simp add: thunk_defs initialState_def rejecting_def)
qed

section \<open>The status and the audio file\<close>

lemma thunk_keeps:
  assumes "audioFileStatus s = NoFile \<longrightarrow> audioFile s = None"
    and "s' \<in> set (visited D s (dispatched (trace (snd (run D api t \<lparr>store = s, trace = []\<rparr>)))))"
  shows "audioFileStatus s' = NoFile \<longrightarrow> audioFile s' = None"
  using assms
  by (cases t) (auto simp: thunk_defs split: option.splits fetch_result.splits if_splits)

lemma action_keeps:
  assumes "audioFileStatus s = NoFile \<longrightarrow> audioFile s = None" and "keeps_file_and_status a"
  shows "audioFileStatus (reducer D s a) = NoFile \<longrightarrow> audioFile (reducer D s a) = None"
  using assms
  by (cases a rule: keeps_file_and_status.cases) (auto simp: reducer_defs)

text \<open>
  C2, as the code has it. Take the states reachable from the initial state by the thunks,
  each run alone and with all the states it goes through, and by every action of the slice
  except a direct \<^verbatim>\<open>setAudioFile\<close> with a file and a direct \<^verbatim>\<open>setAudioStatus(NoFile)\<close>. In
  each of them, a status \<^verbatim>\<open>NoFile\<close> comes with an absent audio file. The converse is not
  claimed: a thunk sets the status to \<^verbatim>\<open>Loading\<close> before the file arrives.
\<close>

theorem NoFile_implies_absent:
  assumes "reachable keeps_file_and_status D s" and "audioFileStatus s = NoFile"
  shows "audioFile s = None"
proof -
  from assms(1) have "audioFileStatus s = NoFile \<longrightarrow> audioFile s = None"
  proof (induction rule: reachable.induct)
    case initial
    show ?case by (simp add: initialState_def)
  next
    case (by_action state a)
    then show ?case using action_keeps by blast
  next
    case (by_thunk state state' api t)
    then show ?case using thunk_keeps by blast
  qed
  with assms(2) show ?thesis by simp
qed

theorem NoFile_implies_absent_witness:
  "reachable keeps_file_and_status reciter7
     (reducer reciter7
        (store (snd (run reciter7 (resolvingWith (Some file2)) (LoadAndPlayAudioFile 2)
           \<lparr>store = initialState reciter7, trace = []\<rparr>)))
        ResetAudioFile)
   \<and> audioFileStatus (reducer reciter7
        (store (snd (run reciter7 (resolvingWith (Some file2)) (LoadAndPlayAudioFile 2)
           \<lparr>store = initialState reciter7, trace = []\<rparr>)))
        ResetAudioFile) = NoFile
   \<and> audioFile (reducer reciter7
        (store (snd (run reciter7 (resolvingWith (Some file2)) (LoadAndPlayAudioFile 2)
           \<lparr>store = initialState reciter7, trace = []\<rparr>)))
        ResetAudioFile) = None"
proof -
  have loaded: "reachable keeps_file_and_status reciter7
     (store (snd (run reciter7 (resolvingWith (Some file2)) (LoadAndPlayAudioFile 2)
           \<lparr>store = initialState reciter7, trace = []\<rparr>)))"
    by (rule reachable.by_thunk [OF reachable.initial,
          where t = "LoadAndPlayAudioFile 2" and getChapterAudioFile = "resolvingWith (Some file2)"])
       (simp add: thunk_defs initialState_def resolvingWith_def)
  have cleared: "reachable keeps_file_and_status reciter7
     (reducer reciter7
        (store (snd (run reciter7 (resolvingWith (Some file2)) (LoadAndPlayAudioFile 2)
           \<lparr>store = initialState reciter7, trace = []\<rparr>)))
        ResetAudioFile)"
    by (rule reachable.by_action [OF loaded]) simp
  have status: "audioFileStatus (reducer reciter7
        (store (snd (run reciter7 (resolvingWith (Some file2)) (LoadAndPlayAudioFile 2)
           \<lparr>store = initialState reciter7, trace = []\<rparr>)))
        ResetAudioFile) = NoFile"
    by (simp add: resetAudioFile_def initialState_def)
  show ?thesis
    using cleared status NoFile_implies_absent [OF cleared status] by simp
qed

text \<open>
  The equivalence fails in reachable states, in both directions. The state in which
  \<^verbatim>\<open>loadAndPlayAudioFile(2)\<close> awaits the fetch, started in the initial state, has the status
  \<^verbatim>\<open>Loading\<close> and no audio file. The state after a direct \<^verbatim>\<open>setAudioFile\<close> in the initial
  state has an audio file and the status \<^verbatim>\<open>NoFile\<close>.
\<close>

theorem NoFile_iff_absent_counterexample:
  "(initialState reciter7)\<lparr>audioFileStatus := Loading\<rparr>
     \<in> set (visited reciter7 (initialState reciter7) (dispatched (trace (snd
          (run reciter7 rejecting (LoadAndPlayAudioFile 2)
             \<lparr>store = initialState reciter7, trace = []\<rparr>)))))
   \<and> reachable any_action reciter7 ((initialState reciter7)\<lparr>audioFileStatus := Loading\<rparr>)
   \<and> audioFileStatus ((initialState reciter7)\<lparr>audioFileStatus := Loading\<rparr>) \<noteq> NoFile
   \<and> audioFile ((initialState reciter7)\<lparr>audioFileStatus := Loading\<rparr>) = None
   \<and> reachable any_action reciter7 (reducer reciter7 (initialState reciter7) (SetAudioFile (Some file2)))
   \<and> audioFileStatus (reducer reciter7 (initialState reciter7) (SetAudioFile (Some file2))) = NoFile
   \<and> audioFile (reducer reciter7 (initialState reciter7) (SetAudioFile (Some file2))) \<noteq> None"
proof -
  have during: "(initialState reciter7)\<lparr>audioFileStatus := Loading\<rparr>
     \<in> set (visited reciter7 (initialState reciter7) (dispatched (trace (snd
          (run reciter7 rejecting (LoadAndPlayAudioFile 2)
             \<lparr>store = initialState reciter7, trace = []\<rparr>)))))"
    by (simp add: thunk_defs initialState_def rejecting_def)
  have loading: "reachable any_action reciter7 ((initialState reciter7)\<lparr>audioFileStatus := Loading\<rparr>)"
    by (rule reachable.by_thunk [OF reachable.initial during])
  have direct: "reachable any_action reciter7
      (reducer reciter7 (initialState reciter7) (SetAudioFile (Some file2)))"
    by (rule reachable.by_action [OF reachable.initial]) (simp add: any_action_def)
  show ?thesis
    using during loading direct by (simp add: setAudioFile_def initialState_def)
qed

section \<open>Playing the chapter that is loaded\<close>

text \<open>
  C3. In a state whose audio file is present and belongs to chapter \<open>C\<close>,
  \<^verbatim>\<open>loadAndPlayAudioFile(C)\<close> is fulfilled, leaves the store as it is, and adds to the trace
  one call of \<^verbatim>\<open>triggerPlayAudio\<close> and nothing else: no fetch, no dispatched action.
\<close>

theorem loadAndPlay_same_chapter:
  assumes "audioFile (store w) = Some f" and "chapterId f = C"
  shows "loadAndPlayAudioFile DEFAULT_RECITER getChapterAudioFile C w
           = (Fulfilled, w\<lparr>trace := trace w @ [TriggerPlayAudio]\<rparr>)
     \<and> store (snd (loadAndPlayAudioFile DEFAULT_RECITER getChapterAudioFile C w)) = store w
     \<and> count_list (trace (snd (loadAndPlayAudioFile DEFAULT_RECITER getChapterAudioFile C w)))
         TriggerPlayAudio = count_list (trace w) TriggerPlayAudio + 1
     \<and> dispatched (trace (snd (loadAndPlayAudioFile DEFAULT_RECITER getChapterAudioFile C w)))
         = dispatched (trace w)"
proof -
  have "dispatched (es @ [TriggerPlayAudio]) = dispatched es" for es
    by (induction es rule: dispatched.induct) simp_all
  with assms show ?thesis
    by (simp add: loadAndPlayAudioFile_def emit_def selectAudioFile_def)
qed

theorem loadAndPlay_same_chapter_witness:
  "audioFile (store \<lparr>store = (initialState reciter7)\<lparr>audioFile := Some file2\<rparr>, trace = []\<rparr>)
     = Some file2
   \<and> chapterId file2 = 2
   \<and> loadAndPlayAudioFile reciter7 rejecting 2
       \<lparr>store = (initialState reciter7)\<lparr>audioFile := Some file2\<rparr>, trace = []\<rparr>
     = (Fulfilled,
        \<lparr>store = (initialState reciter7)\<lparr>audioFile := Some file2\<rparr>, trace = [TriggerPlayAudio]\<rparr>)"
  using loadAndPlay_same_chapter
    [where w = "\<lparr>store = (initialState reciter7)\<lparr>audioFile := Some file2\<rparr>, trace = []\<rparr>"
       and f = file2 and C = 2 and DEFAULT_RECITER = reciter7 and getChapterAudioFile = rejecting]
  by (simp add: initialState_def)

text \<open>
  C9. The test of \<^verbatim>\<open>loadAndPlayAudioFile\<close> looks at the chapter of the stored file and at
  nothing else. Let the state hold a file of chapter \<open>C\<close>, and let the reciter then be
  replaced by any reciter \<open>r\<close> with \<^verbatim>\<open>setReciter\<close>: \<^verbatim>\<open>loadAndPlayAudioFile(C)\<close> still
  plays the stored file and fetches nothing. In particular, when the file was fetched by
  an earlier \<^verbatim>\<open>loadAndPlayAudioFile(C)\<close> for the reciter of that time, the whole trace holds
  one fetch, for that earlier reciter.
\<close>

theorem loadAndPlay_ignores_reciter:
  "(audioFile (store w) = Some f \<and> chapterId f = C
      \<longrightarrow> loadAndPlayAudioFile D api C (dispatch D (SetReciter r) w)
          = (Fulfilled,
             \<lparr>store = (store w)\<lparr>reciter := r\<rparr>,
              trace = trace w @ [Dispatched (SetReciter r), TriggerPlayAudio]\<rparr>))
   \<and> (audioFile (store w) = None \<and> chapterId f = C
        \<and> api (reciter_id (reciter (store w))) C = Resolves (Some f)
      \<longrightarrow> loadAndPlayAudioFile D api' C
            (dispatch D (SetReciter r) (snd (loadAndPlayAudioFile D api C w)))
          = (Fulfilled,
             \<lparr>store = (store w)\<lparr>reciter := r, audioFile := Some f, audioFileStatus := Loading\<rparr>,
              trace = trace w @ [Dispatched (SetAudioStatus Loading),
                                 GetChapterAudioFile (reciter_id (reciter (store w))) C,
                                 Dispatched (SetAudioFile (Some f)), TriggerPlayAudio,
                                 Dispatched (SetReciter r), TriggerPlayAudio]\<rparr>))"
  by (auto simp: thunk_defs)

theorem loadAndPlay_ignores_reciter_witness:
  "audioFile (store \<lparr>store = initialState reciter1, trace = []\<rparr>) = None
   \<and> chapterId file5 = 5
   \<and> resolvingWith (Some file5) (reciter_id (reciter (store \<lparr>store = initialState reciter1, trace = []\<rparr>))) 5
       = Resolves (Some file5)
   \<and> reciter_id reciter2 \<noteq> reciter_id reciter1
   \<and> loadAndPlayAudioFile reciter1 (resolvingWith (Some file5')) 5
       (dispatch reciter1 (SetReciter reciter2)
          (snd (loadAndPlayAudioFile reciter1 (resolvingWith (Some file5)) 5
                  \<lparr>store = initialState reciter1, trace = []\<rparr>)))
     = (Fulfilled,
        \<lparr>store = (initialState reciter1)\<lparr>reciter := reciter2, audioFile := Some file5,
                                           audioFileStatus := Loading\<rparr>,
         trace = [Dispatched (SetAudioStatus Loading), GetChapterAudioFile 1 5,
                  Dispatched (SetAudioFile (Some file5)), TriggerPlayAudio,
                  Dispatched (SetReciter reciter2), TriggerPlayAudio]\<rparr>)"
  using loadAndPlay_ignores_reciter
    [where w = "\<lparr>store = initialState reciter1, trace = []\<rparr>" and f = file5 and C = 5
       and D = reciter1 and api = "resolvingWith (Some file5)"
       and api' = "resolvingWith (Some file5')" and r = reciter2]
  by (simp add: initialState_def resolvingWith_def)

section \<open>Changing the reciter\<close>




section \<open>Playing from a timestamp\<close>

text \<open>
  C5. Whatever the timestamp \<open>t\<close> (so for every \<open>t \<ge> 0\<close>), the state and the behaviour of
  the fetch, the trigger calls that \<^verbatim>\<open>playFrom\<close> adds to the trace are, when it is
  fulfilled, \<^verbatim>\<open>triggerSetCurrentTime(t / 1000)\<close> and then \<^verbatim>\<open>triggerPlayAudio\<close>, and no
  other; it is fulfilled unless the fetch rejects, and then it calls no trigger. In the
  branch that does not fetch the two calls are all it does; in the branch that fetches
  they come last, after the fetch and the two dispatched actions.
\<close>

theorem playFrom_seek_before_play:
  "filter is_trigger (drop (length (trace w)) (trace (snd (playFrom D api t c r w))))
     = (if fst (playFrom D api t c r w) = Fulfilled
        then [TriggerSetCurrentTime (t / 1000), TriggerPlayAudio] else [])
   \<and> (fst (playFrom D api t c r w) \<noteq> Fulfilled
      \<longrightarrow> api (reciter_id (reciter (store w))) c = Rejects)
   \<and> (audioFile (store w) = Some f \<and> chapterId f = c \<and> reciter_id (reciter (store w)) = r
      \<longrightarrow> playFrom D api t c r w
          = (Fulfilled, w\<lparr>trace := trace w @ [TriggerSetCurrentTime (t / 1000), TriggerPlayAudio]\<rparr>))
   \<and> ((audioFile (store w) = None \<or> map_option chapterId (audioFile (store w)) \<noteq> Some c
           \<or> reciter_id (reciter (store w)) \<noteq> r)
       \<and> api (reciter_id (reciter (store w))) c = Resolves v
      \<longrightarrow> fst (playFrom D api t c r w) = Fulfilled
        \<and> trace (snd (playFrom D api t c r w))
          = trace w @ [Dispatched (SetAudioStatus Loading),
                       GetChapterAudioFile (reciter_id (reciter (store w))) c,
                       Dispatched (SetAudioFile v),
                       TriggerSetCurrentTime (t / 1000), TriggerPlayAudio])"
  by (auto simp: thunk_defs split: option.splits fetch_result.splits)

theorem playFrom_seek_before_play_witness:
  "audioFile (store \<lparr>store = (initialState reciter7)\<lparr>audioFile := Some file2\<rparr>, trace = []\<rparr>)
     = Some file2
   \<and> chapterId file2 = 2
   \<and> reciter_id (reciter (store \<lparr>store = (initialState reciter7)\<lparr>audioFile := Some file2\<rparr>,
                                   trace = []\<rparr>)) = 7
   \<and> playFrom reciter7 rejecting 5000 2 7
       \<lparr>store = (initialState reciter7)\<lparr>audioFile := Some file2\<rparr>, trace = []\<rparr>
     = (Fulfilled,
        \<lparr>store = (initialState reciter7)\<lparr>audioFile := Some file2\<rparr>,
         trace = [TriggerSetCurrentTime 5, TriggerPlayAudio]\<rparr>)
   \<and> audioFile (store \<lparr>store = initialState reciter7, trace = []\<rparr>) = None
   \<and> resolvingWith (Some file2) (reciter_id (reciter (store \<lparr>store = initialState reciter7,
                                                             trace = []\<rparr>))) 2
       = Resolves (Some file2)
   \<and> fst (playFrom reciter7 (resolvingWith (Some file2)) 5000 2 7
            \<lparr>store = initialState reciter7, trace = []\<rparr>) = Fulfilled
   \<and> trace (snd (playFrom reciter7 (resolvingWith (Some file2)) 5000 2 7
            \<lparr>store = initialState reciter7, trace = []\<rparr>))
     = [Dispatched (SetAudioStatus Loading), GetChapterAudioFile 7 2,
        Dispatched (SetAudioFile (Some file2)), TriggerSetCurrentTime 5, TriggerPlayAudio]"
proof -
  note loaded = playFrom_seek_before_play
    [where w = "\<lparr>store = (initialState reciter7)\<lparr>audioFile := Some file2\<rparr>, trace = []\<rparr>"
       and D = reciter7 and api = rejecting and t = 5000 and c = 2 and r = 7 and f = file2
       and v = None]
  note fetching = playFrom_seek_before_play
    [where w = "\<lparr>store = initialState reciter7, trace = []\<rparr>"
       and D = reciter7 and api = "resolvingWith (Some file2)" and t = 5000 and c = 2 and r = 7
       and f = file2 and v = "Some file2"]
  have "resolvingWith (Some file2) (reciter_id (reciter (store \<lparr>store = initialState reciter7,
          trace = []\<rparr>))) 2 = Resolves (Some file2)"
    by (simp add: resolvingWith_def)
  then show ?thesis
    using loaded fetching
    by (simp add: initialState_def)
qed

section \<open>The feedback widget\<close>

text \<open>
  C10. The widget is hidden exactly when the status is \<^verbatim>\<open>NoFile\<close>. Its \<^verbatim>\<open>div\<close> carries the
  class \<^verbatim>\<open>audioPlayerOpen\<close> exactly when it is not hidden, that is when the status is
  \<^verbatim>\<open>Loading\<close> or \<^verbatim>\<open>Ready\<close>; it carries the class \<^verbatim>\<open>isMobileMinimizedForScrolling\<close> exactly
  when the flag of that name is set, whatever the status; it always carries the class
  \<^verbatim>\<open>container\<close>.
\<close>

theorem FeedbackWidget_classes:
  "isHidden state = (audioFileStatus state = NoFile)
   \<and> (styles_audioPlayerOpen \<in> set (FeedbackWidget state)) = (\<not> isHidden state)
   \<and> (styles_audioPlayerOpen \<in> set (FeedbackWidget state))
       = (audioFileStatus state = Loading \<or> audioFileStatus state = Ready)
   \<and> (styles_isMobileMinimizedForScrolling \<in> set (FeedbackWidget state))
       = isMobileMinimizedForScrolling state
   \<and> (styles_isMobileMinimizedForScrolling \<in> set (FeedbackWidget (state\<lparr>audioFileStatus := status\<rparr>)))
       = (styles_isMobileMinimizedForScrolling \<in> set (FeedbackWidget state))
   \<and> styles_container \<in> set (FeedbackWidget state)"
  by (cases "audioFileStatus state")
     (auto simp: FeedbackWidget_def classNames_def isHidden_def selectAudioFileStatus_def
        selectIsMobileMinimizedForScrolling_def)

end
